theory Spec2Isabelle
  imports Main
begin

section \<open>The browser-automation calls of \<^verbatim>\<open>verify.py\<close>\<close>

text \<open>
  \<^verbatim>\<open>jules-scratch/verification/verify.py\<close> is one procedure, \<^verbatim>\<open>run\<close>, that drives a
  browser through the Playwright library. Everything it does is a call into that
  library; the library, the browser and the web application answer. The embedding
  keeps the two apart: a \<^emph>\<open>call\<close> is what the script asks for, with the arguments the
  script passes, and a \<^emph>\<open>world\<close> says how each call ends.
\<close>

datatype role = Heading | Button

text \<open>
  Locators as the script builds them: \<^verbatim>\<open>page.get_by_role(r, name=n)\<close>,
  \<^verbatim>\<open>page.get_by_label(l)\<close> and \<^verbatim>\<open>locator.first\<close>. Building a locator talks to no
  browser, so it is a value and not a call.
\<close>

datatype locator =
    GetByRole role string
  | GetByLabel string
  | First locator

text \<open>
  The calls, one constructor per library method the script uses:
  \<^item> \<open>Launch h\<close>: \<^verbatim>\<open>playwright.chromium.launch(headless=h)\<close>;
  \<^item> \<open>NewContext\<close>: \<^verbatim>\<open>browser.new_context()\<close>; \<open>NewPage\<close>: \<^verbatim>\<open>context.new_page()\<close>;
  \<^item> \<open>Goto u\<close>: \<^verbatim>\<open>page.goto(u)\<close>;
  \<^item> \<open>IsVisible l\<close>: \<^verbatim>\<open>l.is_visible()\<close>, the only call whose value the script reads;
  \<^item> \<open>Fill l v\<close>: \<^verbatim>\<open>l.fill(v)\<close>; \<open>Click l\<close>: \<^verbatim>\<open>l.click()\<close>;
  \<^item> \<open>Screenshot p\<close>: \<^verbatim>\<open>page.screenshot(path=p)\<close>;
  \<^item> \<open>ExpectVisible l t\<close>: \<^verbatim>\<open>expect(l).to_be_visible(timeout=t)\<close>, with \<open>None\<close> when
    the script passes no timeout and the library's default applies;
  \<^item> \<open>Close\<close>: \<^verbatim>\<open>browser.close()\<close>.
  The script holds one browser, one context and one page, so a call does not name
  the handle it goes to.
\<close>

datatype call =
    Launch bool
  | NewContext
  | NewPage
  | Goto string
  | IsVisible locator
  | Fill locator string
  | Click locator
  | Screenshot string
  | ExpectVisible locator "nat option"
  | Close

text \<open>The exception a call ends with, tagged with the call that raised it.\<close>

datatype error = Raised call

type_synonym image = string

text \<open>
  The world is everything outside the script. Given the calls made so far it decides
  whether the next call raises, what \<^verbatim>\<open>is_visible()\<close> answers, and what picture a
  screenshot stores. It is a parameter of every theorem: nothing is assumed about
  the library or the application beyond what the theorem states.
\<close>

record world =
  raises :: "call list \<Rightarrow> call \<Rightarrow> bool"
  visible_now :: "call list \<Rightarrow> locator \<Rightarrow> bool"
  capture :: "call list \<Rightarrow> image"

text \<open>
  The state threaded through a run: the calls made so far, in order, and the files
  on disk (path to content).
\<close>

record state =
  trace :: "call list"
  files :: "string \<rightharpoonup> image"

text \<open>
  What a call that returns normally changes besides the trace. Only a screenshot
  touches the file system: it stores the picture under its path, replacing what was
  there.
\<close>

definition effect :: "world \<Rightarrow> call \<Rightarrow> state \<Rightarrow> state" where
  "effect w c s =
     (case c of
        Screenshot p \<Rightarrow> s\<lparr>files := (files s)(p \<mapsto> capture w (trace s))\<rparr>
      | _ \<Rightarrow> s)"

text \<open>
  A call whose value the script ignores. It is recorded whether or not it raises; a
  call that raises is taken to change nothing else, so a screenshot that raises
  writes no file.
\<close>

definition invoke :: "world \<Rightarrow> call \<Rightarrow> state \<Rightarrow> (error + unit) \<times> state" where
  "invoke w c s =
     (if raises w (trace s) c
      then (Inl (Raised c), s\<lparr>trace := trace s @ [c]\<rparr>)
      else (Inr (), (effect w c s)\<lparr>trace := trace s @ [c]\<rparr>))"

text \<open>\<^verbatim>\<open>l.is_visible()\<close>: one call, no timeout argument, a boolean back.\<close>

definition is_visible :: "world \<Rightarrow> locator \<Rightarrow> state \<Rightarrow> (error + bool) \<times> state" where
  "is_visible w l s =
     (if raises w (trace s) (IsVisible l)
      then (Inl (Raised (IsVisible l)), s\<lparr>trace := trace s @ [IsVisible l]\<rparr>)
      else (Inr (visible_now w (trace s) l), s\<lparr>trace := trace s @ [IsVisible l]\<rparr>))"

subsection \<open>Python's control flow\<close>

text \<open>
  Statement after statement: an exception skips the rest. \<open>skip\<close> is the empty
  \<^verbatim>\<open>else\<close> of an \<^verbatim>\<open>if\<close> without one.
\<close>

definition andthen ::
  "(state \<Rightarrow> (error + 'a) \<times> state) \<Rightarrow> ('a \<Rightarrow> state \<Rightarrow> (error + 'b) \<times> state) \<Rightarrow>
   state \<Rightarrow> (error + 'b) \<times> state" where
  "andthen m k s =
     (case m s of
        (Inl e, s') \<Rightarrow> (Inl e, s')
      | (Inr x, s') \<Rightarrow> k x s')"

definition skip :: "state \<Rightarrow> (error + unit) \<times> state" where
  "skip s = (Inr (), s)"

text \<open>
  \<^verbatim>\<open>try: body finally: cleanup\<close>. The cleanup runs however the body ended. If the
  cleanup raises, that exception is the one that leaves the statement; otherwise the
  body's result or exception does.
\<close>

definition try_finally ::
  "(state \<Rightarrow> (error + 'a) \<times> state) \<Rightarrow> (state \<Rightarrow> (error + unit) \<times> state) \<Rightarrow>
   state \<Rightarrow> (error + 'a) \<times> state" where
  "try_finally body cleanup s =
     (case body s of
        (r, s') \<Rightarrow>
          (case cleanup s' of
             (Inl e, s'') \<Rightarrow> (Inl e, s'')
           | (Inr _, s'') \<Rightarrow> (r, s'')))"

subsection \<open>The script\<close>

definition url :: string where
  "url = ''http://localhost:8080/''"

definition wordspark_heading :: locator where
  "wordspark_heading = GetByRole Heading ''WordSpark''"

definition email_field :: locator where
  "email_field = GetByLabel ''Email''"

definition password_field :: locator where
  "password_field = GetByLabel ''Password''"

definition sign_in_button :: locator where
  "sign_in_button = GetByRole Button ''Sign In''"

definition vocabulary_heading :: locator where
  "vocabulary_heading = GetByRole Heading ''Vocabulary Lists''"

definition play_story_button :: locator where
  "play_story_button = First (GetByRole Button ''Play Story'')"

definition story_heading :: locator where
  "story_heading = GetByRole Heading ''Story:''"

definition email :: string where
  "email = ''test@example.com''"

definition password :: string where
  "password = ''password''"

definition after_login_png :: string where
  "after_login_png = ''jules-scratch/verification/after_login.png''"

definition dashboard_png :: string where
  "dashboard_png = ''jules-scratch/verification/dashboard.png''"

definition story_page_png :: string where
  "story_page_png = ''jules-scratch/verification/story_page.png''"

text \<open>Lines 13 to 16, the body of the \<^verbatim>\<open>if\<close>.\<close>

definition login :: "world \<Rightarrow> state \<Rightarrow> (error + unit) \<times> state" where
  "login w =
     andthen (invoke w (Fill email_field email)) (\<lambda>_.
     andthen (invoke w (Fill password_field password)) (\<lambda>_.
     andthen (invoke w (Click sign_in_button)) (\<lambda>_.
     invoke w (Screenshot after_login_png))))"

text \<open>Lines 9 to 34, the body of the \<^verbatim>\<open>try\<close>.\<close>

definition body :: "world \<Rightarrow> state \<Rightarrow> (error + unit) \<times> state" where
  "body w =
     andthen (invoke w (Goto url)) (\<lambda>_.
     andthen (is_visible w wordspark_heading) (\<lambda>on_login_page.
     andthen (if on_login_page then login w else skip) (\<lambda>_.
     andthen (invoke w (ExpectVisible vocabulary_heading (Some 10000))) (\<lambda>_.
     andthen (invoke w (Screenshot dashboard_png)) (\<lambda>_.
     andthen (invoke w (ExpectVisible play_story_button None)) (\<lambda>_.
     andthen (invoke w (Click play_story_button)) (\<lambda>_.
     andthen (invoke w (ExpectVisible story_heading None)) (\<lambda>_.
     invoke w (Screenshot story_page_png)))))))))"

text \<open>
  Lines 3 to 37. The three handles are made before the \<^verbatim>\<open>try\<close>; only the body is
  under the \<^verbatim>\<open>finally\<close> that closes the browser. Lines 39 and 40 start the library
  and call \<^verbatim>\<open>run\<close> once.
\<close>

definition run :: "world \<Rightarrow> state \<Rightarrow> (error + unit) \<times> state" where
  "run w =
     andthen (invoke w (Launch True)) (\<lambda>_.
     andthen (invoke w NewContext) (\<lambda>_.
     andthen (invoke w NewPage) (\<lambda>_.
     try_finally (body w) (invoke w Close))))"

subsection \<open>Observing a run\<close>

text \<open>A run starts with no call made, on a disk holding \<open>fs\<close>.\<close>

definition start :: "(string \<rightharpoonup> image) \<Rightarrow> state" where
  "start fs = \<lparr>trace = [], files = fs\<rparr>"

definition issued :: "world \<Rightarrow> (string \<rightharpoonup> image) \<Rightarrow> call list" where
  "issued w fs = trace (snd (run w (start fs)))"

definition outcome :: "world \<Rightarrow> (string \<rightharpoonup> image) \<Rightarrow> error + unit" where
  "outcome w fs = fst (run w (start fs))"

definition disk :: "world \<Rightarrow> (string \<rightharpoonup> image) \<Rightarrow> (string \<rightharpoonup> image)" where
  "disk w fs = files (snd (run w (start fs)))"

text \<open>
  Reading a trace \<open>t\<close>: the calls before the first \<open>c\<close>, the calls after it, and the
  call right after it.
\<close>

definition before :: "call \<Rightarrow> call list \<Rightarrow> call list" where
  "before c t = takeWhile (\<lambda>x. x \<noteq> c) t"

definition after :: "call \<Rightarrow> call list \<Rightarrow> call list" where
  "after c t = tl (dropWhile (\<lambda>x. x \<noteq> c) t)"

definition following :: "call \<Rightarrow> call list \<Rightarrow> call option" where
  "following c t = (case after c t of [] \<Rightarrow> None | x # _ \<Rightarrow> Some x)"

text \<open>
  A call of the trace returned, or raised, as the world answered it on the calls
  made before it.
\<close>

definition returned :: "world \<Rightarrow> call \<Rightarrow> call list \<Rightarrow> bool" where
  "returned w c t = (c \<in> set t \<and> \<not> raises w (before c t) c)"

definition raised :: "world \<Rightarrow> call \<Rightarrow> call list \<Rightarrow> bool" where
  "raised w c t = (c \<in> set t \<and> raises w (before c t) c)"

text \<open>What \<^verbatim>\<open>is_visible()\<close> answered for the locator \<open>l\<close> in the trace \<open>t\<close>.\<close>

definition answer :: "world \<Rightarrow> locator \<Rightarrow> call list \<Rightarrow> bool" where
  "answer w l t = visible_now w (before (IsVisible l) t) l"

fun is_screenshot :: "call \<Rightarrow> bool" where
  "is_screenshot (Screenshot p) = True"
| "is_screenshot c = False"

text \<open>The calls that open something new: a browser, a context, a page, an address.\<close>

fun opens :: "call \<Rightarrow> bool" where
  "opens (Launch h) = True"
| "opens NewContext = True"
| "opens NewPage = True"
| "opens (Goto u) = True"
| "opens c = False"

text \<open>
  The disk after the screenshot to the path \<open>p\<close> in the trace \<open>t\<close>, when the disk
  before it was \<open>d\<close>: the picture is stored if and only if the call was made and
  returned.
\<close>

definition stored :: "world \<Rightarrow> string \<Rightarrow> call list \<Rightarrow> (string \<rightharpoonup> image) \<Rightarrow> (string \<rightharpoonup> image)" where
  "stored w p t d =
     (if returned w (Screenshot p) t then d(p \<mapsto> capture w (before (Screenshot p) t)) else d)"

text \<open>
  Worlds to run the script in: the calls of \<open>failing\<close> raise whenever they are made,
  every other call returns, \<^verbatim>\<open>is_visible()\<close> answers \<open>shown\<close>, and every screenshot
  is the picture \<open>''png''\<close>.
\<close>

definition scenario :: "call list \<Rightarrow> bool \<Rightarrow> world" where
  "scenario failing shown =
     \<lparr>raises = (\<lambda>h c. c \<in> set failing),
      visible_now = (\<lambda>h l. shown),
      capture = (\<lambda>h. ''png'')\<rparr>"

subsection \<open>How a role locator matches a name\<close>

text \<open>
  \<^verbatim>\<open>page.get_by_role(r, name=n)\<close> with a string \<open>n\<close> and no \<^verbatim>\<open>exact=True\<close>, which
  is how the script calls it everywhere, uses the library's documented default: the
  element has the role \<open>r\<close> and its accessible name contains \<open>n\<close>, letter case
  ignored (\<open>lower\<close> folds the letters A to Z). An element is given here by its role
  and its accessible name.
\<close>

definition lower :: "char \<Rightarrow> char" where
  "lower c =
     (case map_of (zip ''ABCDEFGHIJKLMNOPQRSTUVWXYZ'' ''abcdefghijklmnopqrstuvwxyz'') c of
        Some d \<Rightarrow> d
      | None \<Rightarrow> c)"

text \<open>
  \<open>starts_with p a\<close> is the specification's ``the name \<open>a\<close> begins with \<open>p\<close>'';
  \<open>contains p a\<close> finds \<open>p\<close> at some position of \<open>a\<close>.
\<close>

definition starts_with :: "string \<Rightarrow> string \<Rightarrow> bool" where
  "starts_with p a = (take (length p) a = p)"

fun contains :: "string \<Rightarrow> string \<Rightarrow> bool" where
  "contains p [] = (p = [])"
| "contains p (c # a) = (starts_with p (c # a) \<or> contains p a)"

definition name_matches :: "string \<Rightarrow> string \<Rightarrow> bool" where
  "name_matches n a = contains (map lower n) (map lower a)"

definition by_role :: "role \<Rightarrow> string \<Rightarrow> role \<times> string \<Rightarrow> bool" where
  "by_role r n e = (fst e = r \<and> name_matches n (snd e))"

text \<open>
  What a locator resolves to on a page that is given by the roles and accessible
  names of its elements, in document order: a role locator to the elements it
  matches, \<^verbatim>\<open>.first\<close> to the first of those its locator resolves to. Labels are not
  part of this description of a page, so what a label locator resolves to is not
  determined by it (\<open>None\<close>).
\<close>

fun matching :: "locator \<Rightarrow> (role \<times> string) list \<Rightarrow> (role \<times> string) list option" where
  "matching (GetByRole r n) page = Some (filter (by_role r n) page)"
| "matching (First l) page = map_option (take 1) (matching l page)"
| "matching (GetByLabel l) page = None"

subsection \<open>Stating a property of a result\<close>

text \<open>
  \<open>holds Q x\<close> is \<open>Q x\<close>. Written this way, a property of a run is carried into each
  branch of the run, where the answers of the world along that branch are known.
\<close>

definition holds :: "('a \<Rightarrow> bool) \<Rightarrow> 'a \<Rightarrow> bool" where
  "holds Q x = Q x"

section \<open>Running the script step by step\<close>

lemma invoke_step:
  "andthen (invoke w c) k s =
     (if raises w (trace s) c then (Inl (Raised c), s\<lparr>trace := trace s @ [c]\<rparr>)
      else k () ((effect w c s)\<lparr>trace := trace s @ [c]\<rparr>))"
  by (simp add: andthen_def invoke_def)

lemma andthen_assoc: "andthen (andthen m f) k = andthen m (\<lambda>x. andthen (f x) k)"
  by (rule ext) (simp add: andthen_def split: prod.splits sum.splits)

lemma effect_simps:
  "effect w (Screenshot p) s = s\<lparr>files := (files s)(p \<mapsto> capture w (trace s))\<rparr>"
  "effect w (Launch b) s = s" "effect w NewContext s = s" "effect w NewPage s = s"
  "effect w (Goto u) s = s" "effect w (IsVisible l) s = s" "effect w (Fill l v) s = s"
  "effect w (Click l) s = s" "effect w (ExpectVisible l tm) s = s" "effect w Close s = s"
  by (simp_all add: effect_def)

text \<open>The \<^verbatim>\<open>finally\<close> clause travels with the body until the body has ended.\<close>

lemma finally_result:
  "try_finally (Pair r) (invoke w c) s =
     (if raises w (trace s) c then (Inl (Raised c), s\<lparr>trace := trace s @ [c]\<rparr>)
      else (r, (effect w c s)\<lparr>trace := trace s @ [c]\<rparr>))"
  by (simp add: try_finally_def invoke_def)

lemma finally_invoke:
  "try_finally (andthen (invoke w c) k) fin s =
     (if raises w (trace s) c
      then try_finally (Pair (Inl (Raised c))) fin (s\<lparr>trace := trace s @ [c]\<rparr>)
      else try_finally (k ()) fin ((effect w c s)\<lparr>trace := trace s @ [c]\<rparr>))"
  by (simp add: try_finally_def andthen_def invoke_def)

lemma finally_last:
  "try_finally (invoke w c) fin s =
     (if raises w (trace s) c
      then try_finally (Pair (Inl (Raised c))) fin (s\<lparr>trace := trace s @ [c]\<rparr>)
      else try_finally (Pair (Inr ())) fin ((effect w c s)\<lparr>trace := trace s @ [c]\<rparr>))"
  by (simp add: try_finally_def invoke_def)

lemma finally_probe:
  "try_finally (andthen (is_visible w l) k) fin s =
     (if raises w (trace s) (IsVisible l)
      then try_finally (Pair (Inl (Raised (IsVisible l)))) fin
             (s\<lparr>trace := trace s @ [IsVisible l]\<rparr>)
      else try_finally (k (visible_now w (trace s) l)) fin
             (s\<lparr>trace := trace s @ [IsVisible l]\<rparr>))"
  by (simp add: try_finally_def andthen_def is_visible_def)

lemma finally_if:
  "try_finally (andthen (if b then m1 else m2) k) fin s =
     (if b then try_finally (andthen m1 k) fin s else try_finally (andthen m2 k) fin s)"
  by simp

lemma finally_skip: "try_finally (andthen skip k) fin s = try_finally (k ()) fin s"
  by (simp add: try_finally_def andthen_def skip_def)

lemma holds_if: "holds Q (if c then x else y) = (if c then holds Q x else holds Q y)"
  by simp

lemma holds_pair: "holds Q (r, s) = Q (r, s)"
  by (simp add: holds_def)

lemmas steps = invoke_step andthen_assoc effect_simps finally_result finally_invoke
  finally_last finally_probe finally_if finally_skip holds_if holds_pair

lemmas script = run_def body_def login_def start_def

lemmas observed = issued_def outcome_def disk_def holds_def split_beta

text \<open>Reading a trace that is written out, one call at a time.\<close>

lemma before_simps:
  "before c [] = []"
  "before c (c # t) = []"
  "x \<noteq> c \<Longrightarrow> before c (x # t) = x # before c t"
  by (simp_all add: before_def)

lemma after_simps:
  "after c [] = []"
  "after c (c # t) = t"
  "x \<noteq> c \<Longrightarrow> after c (x # t) = after c t"
  by (simp_all add: after_def)

lemma count_list_step: "count_list (x # xs) y = (if x = y then 1 else 0) + count_list xs y"
  by simp

lemma filter_step: "filter P (x # xs) = (if P x then [x] else []) @ filter P xs"
  by simp

lemmas reading = before_simps after_simps following_def returned_def raised_def answer_def
  stored_def count_list_step filter_step

lemma names_differ:
  "email_field \<noteq> password_field" "password_field \<noteq> email_field"
  "sign_in_button \<noteq> play_story_button" "play_story_button \<noteq> sign_in_button"
  "vocabulary_heading \<noteq> play_story_button" "play_story_button \<noteq> vocabulary_heading"
  "vocabulary_heading \<noteq> story_heading" "story_heading \<noteq> vocabulary_heading"
  "play_story_button \<noteq> story_heading" "story_heading \<noteq> play_story_button"
  "wordspark_heading \<noteq> vocabulary_heading" "vocabulary_heading \<noteq> wordspark_heading"
  "wordspark_heading \<noteq> play_story_button" "play_story_button \<noteq> wordspark_heading"
  "wordspark_heading \<noteq> story_heading" "story_heading \<noteq> wordspark_heading"
  "after_login_png \<noteq> dashboard_png" "dashboard_png \<noteq> after_login_png"
  "after_login_png \<noteq> story_page_png" "story_page_png \<noteq> after_login_png"
  "dashboard_png \<noteq> story_page_png" "story_page_png \<noteq> dashboard_png"
  by (simp_all add: email_field_def password_field_def sign_in_button_def play_story_button_def
      vocabulary_heading_def story_heading_def wordspark_heading_def after_login_png_def
      dashboard_png_def story_page_png_def)

section \<open>The script in nine worlds\<close>

text \<open>
  The runs the witnesses and counterexamples below look at, computed once: every
  call returns (with and without the login page), and one call raises.
\<close>

lemma scenario_answers:
  "raises (scenario failing shown) h c = (c \<in> set failing)"
  "visible_now (scenario failing shown) h l = shown"
  "capture (scenario failing shown) h = ''png''"
  by (simp_all add: scenario_def)

lemmas in_scenario = script steps scenario_answers names_differ

lemmas evaluated = issued_def outcome_def disk_def reading scenario_answers names_differ

lemma run_all_return_login:
  "run (scenario [] True) (start fs) =
     (Inr (),
      \<lparr>trace =
         [Launch True, NewContext, NewPage, Goto url, IsVisible wordspark_heading,
          Fill email_field email, Fill password_field password, Click sign_in_button,
          Screenshot after_login_png, ExpectVisible vocabulary_heading (Some 10000),
          Screenshot dashboard_png, ExpectVisible play_story_button None,
          Click play_story_button, ExpectVisible story_heading None,
          Screenshot story_page_png, Close],
       files = fs(after_login_png \<mapsto> ''png'', dashboard_png \<mapsto> ''png'',
                  story_page_png \<mapsto> ''png'')\<rparr>)"
  by (simp add: in_scenario)

lemma run_all_return_no_login:
  "run (scenario [] False) (start fs) =
     (Inr (),
      \<lparr>trace =
         [Launch True, NewContext, NewPage, Goto url, IsVisible wordspark_heading,
          ExpectVisible vocabulary_heading (Some 10000), Screenshot dashboard_png,
          ExpectVisible play_story_button None, Click play_story_button,
          ExpectVisible story_heading None, Screenshot story_page_png, Close],
       files = fs(dashboard_png \<mapsto> ''png'', story_page_png \<mapsto> ''png'')\<rparr>)"
  by (simp add: in_scenario)

lemma run_launch_raises:
  "run (scenario [Launch True] False) (start fs) =
     (Inl (Raised (Launch True)), \<lparr>trace = [Launch True], files = fs\<rparr>)"
  by (simp add: in_scenario)

lemma run_vocabulary_wait_raises:
  "run (scenario [ExpectVisible vocabulary_heading (Some 10000)] False) (start fs) =
     (Inl (Raised (ExpectVisible vocabulary_heading (Some 10000))),
      \<lparr>trace =
         [Launch True, NewContext, NewPage, Goto url, IsVisible wordspark_heading,
          ExpectVisible vocabulary_heading (Some 10000), Close],
       files = fs\<rparr>)"
  by (simp add: in_scenario)

lemma run_email_fill_raises:
  "run (scenario [Fill email_field email] True) (start fs) =
     (Inl (Raised (Fill email_field email)),
      \<lparr>trace =
         [Launch True, NewContext, NewPage, Goto url, IsVisible wordspark_heading,
          Fill email_field email, Close],
       files = fs\<rparr>)"
  by (simp add: in_scenario)

lemma run_sign_in_click_raises:
  "run (scenario [Click sign_in_button] True) (start fs) =
     (Inl (Raised (Click sign_in_button)),
      \<lparr>trace =
         [Launch True, NewContext, NewPage, Goto url, IsVisible wordspark_heading,
          Fill email_field email, Fill password_field password, Click sign_in_button,
          Close],
       files = fs\<rparr>)"
  by (simp add: in_scenario)

lemma run_play_story_assertion_raises:
  "run (scenario [ExpectVisible play_story_button None] False) (start fs) =
     (Inl (Raised (ExpectVisible play_story_button None)),
      \<lparr>trace =
         [Launch True, NewContext, NewPage, Goto url, IsVisible wordspark_heading,
          ExpectVisible vocabulary_heading (Some 10000), Screenshot dashboard_png,
          ExpectVisible play_story_button None, Close],
       files = fs(dashboard_png \<mapsto> ''png'')\<rparr>)"
  by (simp add: in_scenario)

lemma run_play_story_click_raises:
  "run (scenario [Click play_story_button] True) (start fs) =
     (Inl (Raised (Click play_story_button)),
      \<lparr>trace =
         [Launch True, NewContext, NewPage, Goto url, IsVisible wordspark_heading,
          Fill email_field email, Fill password_field password, Click sign_in_button,
          Screenshot after_login_png, ExpectVisible vocabulary_heading (Some 10000),
          Screenshot dashboard_png, ExpectVisible play_story_button None,
          Click play_story_button, Close],
       files = fs(after_login_png \<mapsto> ''png'', dashboard_png \<mapsto> ''png'')\<rparr>)"
  by (simp add: in_scenario)

lemma run_story_wait_raises:
  "run (scenario [ExpectVisible story_heading None] True) (start fs) =
     (Inl (Raised (ExpectVisible story_heading None)),
      \<lparr>trace =
         [Launch True, NewContext, NewPage, Goto url, IsVisible wordspark_heading,
          Fill email_field email, Fill password_field password, Click sign_in_button,
          Screenshot after_login_png, ExpectVisible vocabulary_heading (Some 10000),
          Screenshot dashboard_png, ExpectVisible play_story_button None,
          Click play_story_button, ExpectVisible story_heading None, Close],
       files = fs(after_login_png \<mapsto> ''png'', dashboard_png \<mapsto> ''png'')\<rparr>)"
  by (simp add: in_scenario)

text \<open>A name that begins with the wanted text contains it, whatever the letter case.\<close>

lemma starts_with_contains: "starts_with p a \<Longrightarrow> contains p a"
  by (cases a) (simp_all add: starts_with_def)

lemma starts_with_map: "starts_with p a \<Longrightarrow> starts_with (map f p) (map f a)"
proof -
  assume "starts_with p a"
  then have "take (length p) a = p"
    by (simp add: starts_with_def)
  then have "map f (take (length p) a) = map f p"
    by simp
  then show ?thesis
    by (simp add: starts_with_def take_map)
qed

lemma starts_with_matches: "starts_with n a \<Longrightarrow> name_matches n a"
  unfolding name_matches_def by (intro starts_with_contains starts_with_map)

section \<open>The claims\<close>

text \<open>
  C1, as amended. In every run in which the browser launch, the context creation and
  the page creation return, \<^verbatim>\<open>browser.close()\<close> is called exactly once and is the last
  call of the run, on every exit path: whenever a call of the run raises (the
  navigation, the visibility check, a fill, a click, a visibility assertion or a
  screenshot), the close is the very next call, and only then does the failure leave
  the run. The failure that leaves is the one of that call, or the one of the close
  if the close raises too. A run that ends without an error had no call that raised.
  In a run in which the launch itself raises there is no browser: the launch is the
  only call and its failure leaves the run.
\<close>

theorem browser_closed_once_after_setup:
  assumes "t = issued w fs"
  shows "(returned w (Launch True) t \<and> returned w NewContext t \<and> returned w NewPage t \<longrightarrow>
            count_list t Close = 1
            \<and> last t = Close
            \<and> (\<forall>c \<in> set t. raised w c t \<longrightarrow>
                  outcome w fs = Inl (Raised (if raised w Close t then Close else c))
                  \<and> (c \<noteq> Close \<longrightarrow> following c t = Some Close))
            \<and> (outcome w fs = Inr () \<longrightarrow> (\<forall>c \<in> set t. returned w c t)))
       \<and> (raised w (Launch True) t \<longrightarrow>
            t = [Launch True] \<and> outcome w fs = Inl (Raised (Launch True)))"
proof -
  have "holds (\<lambda>(r, s).
          (returned w (Launch True) (trace s) \<and> returned w NewContext (trace s)
             \<and> returned w NewPage (trace s) \<longrightarrow>
             count_list (trace s) Close = 1
             \<and> last (trace s) = Close
             \<and> (\<forall>c \<in> set (trace s). raised w c (trace s) \<longrightarrow>
                   r = Inl (Raised (if raised w Close (trace s) then Close else c))
                   \<and> (c \<noteq> Close \<longrightarrow> following c (trace s) = Some Close))
             \<and> (r = Inr () \<longrightarrow> (\<forall>c \<in> set (trace s). returned w c (trace s))))
          \<and> (raised w (Launch True) (trace s) \<longrightarrow>
             trace s = [Launch True] \<and> r = Inl (Raised (Launch True))))
        (run w (start fs))"
    by (simp add: script steps reading names_differ cong: if_cong
        del: count_list.simps(2) filter.simps(2))
  then show ?thesis
    unfolding assms(1) observed by blast
qed

text \<open>
  A run in which the click on ``Play Story'' raises: the close follows it. A run in
  which the launch raises: it is the only call.
\<close>

theorem browser_closed_once_after_setup_witness:
  "returned (scenario [Click play_story_button] True) (Launch True)
     (issued (scenario [Click play_story_button] True) Map.empty)
   \<and> returned (scenario [Click play_story_button] True) NewContext
       (issued (scenario [Click play_story_button] True) Map.empty)
   \<and> returned (scenario [Click play_story_button] True) NewPage
       (issued (scenario [Click play_story_button] True) Map.empty)
   \<and> raised (scenario [Click play_story_button] True) (Click play_story_button)
       (issued (scenario [Click play_story_button] True) Map.empty)
   \<and> count_list (issued (scenario [Click play_story_button] True) Map.empty) Close = 1
   \<and> last (issued (scenario [Click play_story_button] True) Map.empty) = Close
   \<and> following (Click play_story_button)
       (issued (scenario [Click play_story_button] True) Map.empty) = Some Close
   \<and> outcome (scenario [Click play_story_button] True) Map.empty =
       Inl (Raised (Click play_story_button))
   \<and> raised (scenario [Launch True] True) (Launch True)
       (issued (scenario [Launch True] True) Map.empty)
   \<and> issued (scenario [Launch True] True) Map.empty = [Launch True]
   \<and> outcome (scenario [Launch True] True) Map.empty = Inl (Raised (Launch True))"
  using browser_closed_once_after_setup
    [of "issued (scenario [Click play_story_button] True) Map.empty"
        "scenario [Click play_story_button] True" Map.empty]
    browser_closed_once_after_setup
    [of "issued (scenario [Launch True] True) Map.empty" "scenario [Launch True] True" Map.empty]
  by (simp add: evaluated run_play_story_click_raises script steps)

text \<open>
  C1 as stated fails where the launch itself raises: \<^verbatim>\<open>browser.close()\<close> is not called.
\<close>

theorem close_not_called_when_launch_raises:
  "raised (scenario [Launch True] False) (Launch True)
     (issued (scenario [Launch True] False) Map.empty)
   \<and> count_list (issued (scenario [Launch True] False) Map.empty) Close = 0"
  by (simp add: evaluated run_launch_raises)

text \<open>
  C2. In every run that gets past the login branch, taken or skipped, the next call
  is the wait for the heading ``Vocabulary Lists'', made once and with the timeout
  10000 ms and no other. If the wait raises, which is how the library reports that
  the heading did not show within the deadline, the run does not go on: the only
  call after it is the close, the run ends in an error, and the dashboard file is
  not written.
\<close>

theorem vocabulary_wait_has_a_deadline_and_reports:
  assumes "t = issued w fs"
      and "(returned w (IsVisible wordspark_heading) t \<and> \<not> answer w wordspark_heading t)
           \<or> returned w (Screenshot after_login_png) t"
  shows "count_list t (ExpectVisible vocabulary_heading (Some 10000)) = 1
       \<and> (\<forall>tm. ExpectVisible vocabulary_heading tm \<in> set t \<longrightarrow> tm = Some 10000)
       \<and> following (if answer w wordspark_heading t then Screenshot after_login_png
                      else IsVisible wordspark_heading) t
           = Some (ExpectVisible vocabulary_heading (Some 10000))
       \<and> (raised w (ExpectVisible vocabulary_heading (Some 10000)) t \<longrightarrow>
             after (ExpectVisible vocabulary_heading (Some 10000)) t = [Close]
             \<and> outcome w fs =
                 Inl (Raised (if raised w Close t then Close
                              else ExpectVisible vocabulary_heading (Some 10000)))
             \<and> disk w fs dashboard_png = fs dashboard_png)
       \<and> vocabulary_heading = GetByRole Heading ''Vocabulary Lists''"
proof -
  have "holds (\<lambda>(r, s).
          (returned w (IsVisible wordspark_heading) (trace s)
             \<and> \<not> answer w wordspark_heading (trace s))
           \<or> returned w (Screenshot after_login_png) (trace s) \<longrightarrow>
          count_list (trace s) (ExpectVisible vocabulary_heading (Some 10000)) = 1
          \<and> (\<forall>tm. ExpectVisible vocabulary_heading tm \<in> set (trace s) \<longrightarrow> tm = Some 10000)
          \<and> following (if answer w wordspark_heading (trace s) then Screenshot after_login_png
                         else IsVisible wordspark_heading) (trace s)
              = Some (ExpectVisible vocabulary_heading (Some 10000))
          \<and> (raised w (ExpectVisible vocabulary_heading (Some 10000)) (trace s) \<longrightarrow>
                after (ExpectVisible vocabulary_heading (Some 10000)) (trace s) = [Close]
                \<and> r = Inl (Raised (if raised w Close (trace s) then Close
                                    else ExpectVisible vocabulary_heading (Some 10000)))
                \<and> files s dashboard_png = fs dashboard_png))
        (run w (start fs))"
    by (simp add: script steps reading names_differ cong: if_cong
        del: count_list.simps(2) filter.simps(2))
  moreover have "vocabulary_heading = GetByRole Heading ''Vocabulary Lists''"
    by (simp add: vocabulary_heading_def)
  ultimately show ?thesis
    using assms(2-) unfolding assms(1) observed by blast
qed

text \<open>A page that never shows the heading: the wait raises and the run stops there.\<close>

theorem vocabulary_wait_has_a_deadline_and_reports_witness:
  "returned (scenario [ExpectVisible vocabulary_heading (Some 10000)] False)
     (IsVisible wordspark_heading)
     (issued (scenario [ExpectVisible vocabulary_heading (Some 10000)] False) Map.empty)
   \<and> \<not> answer (scenario [ExpectVisible vocabulary_heading (Some 10000)] False)
         wordspark_heading
         (issued (scenario [ExpectVisible vocabulary_heading (Some 10000)] False) Map.empty)
   \<and> raised (scenario [ExpectVisible vocabulary_heading (Some 10000)] False)
       (ExpectVisible vocabulary_heading (Some 10000))
       (issued (scenario [ExpectVisible vocabulary_heading (Some 10000)] False) Map.empty)
   \<and> following (IsVisible wordspark_heading)
       (issued (scenario [ExpectVisible vocabulary_heading (Some 10000)] False) Map.empty)
       = Some (ExpectVisible vocabulary_heading (Some 10000))
   \<and> after (ExpectVisible vocabulary_heading (Some 10000))
       (issued (scenario [ExpectVisible vocabulary_heading (Some 10000)] False) Map.empty)
       = [Close]
   \<and> outcome (scenario [ExpectVisible vocabulary_heading (Some 10000)] False) Map.empty
       = Inl (Raised (ExpectVisible vocabulary_heading (Some 10000)))
   \<and> disk (scenario [ExpectVisible vocabulary_heading (Some 10000)] False) Map.empty
       dashboard_png = None"
  using vocabulary_wait_has_a_deadline_and_reports
    [of "issued (scenario [ExpectVisible vocabulary_heading (Some 10000)] False) Map.empty"
        "scenario [ExpectVisible vocabulary_heading (Some 10000)] False" Map.empty]
  by (simp add: evaluated run_vocabulary_wait_raises)

text \<open>
  C3, as amended. In every run in which the ``WordSpark'' heading is visible when the
  script checks for it, the call right after the check fills the field labelled
  ``Email'' with \<^verbatim>\<open>test@example.com\<close>. Each later step of the branch follows at once if
  the step before it returned: filling ``Password'' with \<^verbatim>\<open>password\<close>, clicking ``Sign
  In'', taking the screenshot \<^verbatim>\<open>after_login.png\<close>. No run makes any of these calls
  twice, no run fills any other field or value, and a run in which the click
  returned made it exactly once. A step that raises ends the branch: the only call
  after it is the close of the browser, and the run ends in the failure of that step,
  or in the failure of the close if the close raises too.
\<close>

theorem login_calls_in_order:
  assumes "t = issued w fs"
      and "returned w (IsVisible wordspark_heading) t"
      and "answer w wordspark_heading t"
  shows "following (IsVisible wordspark_heading) t = Some (Fill email_field email)
       \<and> count_list t (Fill email_field email) = 1
       \<and> (returned w (Fill email_field email) t \<longrightarrow>
             following (Fill email_field email) t = Some (Fill password_field password))
       \<and> (returned w (Fill password_field password) t \<longrightarrow>
             following (Fill password_field password) t = Some (Click sign_in_button))
       \<and> (returned w (Click sign_in_button) t \<longrightarrow>
             count_list t (Click sign_in_button) = 1
             \<and> following (Click sign_in_button) t = Some (Screenshot after_login_png))
       \<and> (\<forall>c \<in> set [Fill email_field email, Fill password_field password,
                      Click sign_in_button, Screenshot after_login_png].
             raised w c t \<longrightarrow>
               after c t = [Close]
               \<and> outcome w fs = Inl (Raised (if raised w Close t then Close else c)))
       \<and> (\<forall>l v. Fill l v \<in> set t \<longrightarrow>
             (l = email_field \<and> v = email) \<or> (l = password_field \<and> v = password))
       \<and> count_list t (Fill password_field password) \<le> 1
       \<and> count_list t (Click sign_in_button) \<le> 1
       \<and> count_list t (Screenshot after_login_png) \<le> 1
       \<and> Fill email_field email = Fill (GetByLabel ''Email'') ''test@example.com''
       \<and> Fill password_field password = Fill (GetByLabel ''Password'') ''password''
       \<and> Click sign_in_button = Click (GetByRole Button ''Sign In'')
       \<and> Screenshot after_login_png = Screenshot ''jules-scratch/verification/after_login.png''"
proof -
  have "holds (\<lambda>(r, s).
          returned w (IsVisible wordspark_heading) (trace s) \<longrightarrow>
          answer w wordspark_heading (trace s) \<longrightarrow>
          following (IsVisible wordspark_heading) (trace s) = Some (Fill email_field email)
          \<and> count_list (trace s) (Fill email_field email) = 1
          \<and> (returned w (Fill email_field email) (trace s) \<longrightarrow>
                following (Fill email_field email) (trace s)
                  = Some (Fill password_field password))
          \<and> (returned w (Fill password_field password) (trace s) \<longrightarrow>
                following (Fill password_field password) (trace s)
                  = Some (Click sign_in_button))
          \<and> (returned w (Click sign_in_button) (trace s) \<longrightarrow>
                count_list (trace s) (Click sign_in_button) = 1
                \<and> following (Click sign_in_button) (trace s)
                    = Some (Screenshot after_login_png))
          \<and> (\<forall>c \<in> set [Fill email_field email, Fill password_field password,
                         Click sign_in_button, Screenshot after_login_png].
                raised w c (trace s) \<longrightarrow>
                  after c (trace s) = [Close]
                  \<and> r = Inl (Raised (if raised w Close (trace s) then Close else c)))
          \<and> (\<forall>l v. Fill l v \<in> set (trace s) \<longrightarrow>
                (l = email_field \<and> v = email) \<or> (l = password_field \<and> v = password))
          \<and> count_list (trace s) (Fill password_field password) \<le> 1
          \<and> count_list (trace s) (Click sign_in_button) \<le> 1
          \<and> count_list (trace s) (Screenshot after_login_png) \<le> 1)
        (run w (start fs))"
    by (simp add: script steps reading names_differ cong: if_cong
        del: count_list.simps(2) filter.simps(2))
  moreover have "Fill email_field email = Fill (GetByLabel ''Email'') ''test@example.com''
      \<and> Fill password_field password = Fill (GetByLabel ''Password'') ''password''
      \<and> Click sign_in_button = Click (GetByRole Button ''Sign In'')
      \<and> Screenshot after_login_png = Screenshot ''jules-scratch/verification/after_login.png''"
    by (simp add: email_field_def email_def password_field_def password_def sign_in_button_def
        after_login_png_def)
  ultimately show ?thesis
    using assms(2-) unfolding assms(1) observed by blast
qed

text \<open>
  The login page with every call returning: the four calls, in order, once each. The
  login page with the click on ``Sign In'' raising: the close follows it and the
  failure of the click leaves the run.
\<close>

theorem login_calls_in_order_witness:
  "returned (scenario [] True) (IsVisible wordspark_heading)
     (issued (scenario [] True) Map.empty)
   \<and> answer (scenario [] True) wordspark_heading (issued (scenario [] True) Map.empty)
   \<and> following (IsVisible wordspark_heading) (issued (scenario [] True) Map.empty)
       = Some (Fill email_field email)
   \<and> following (Fill email_field email) (issued (scenario [] True) Map.empty)
       = Some (Fill password_field password)
   \<and> following (Fill password_field password) (issued (scenario [] True) Map.empty)
       = Some (Click sign_in_button)
   \<and> following (Click sign_in_button) (issued (scenario [] True) Map.empty)
       = Some (Screenshot after_login_png)
   \<and> count_list (issued (scenario [] True) Map.empty) (Click sign_in_button) = 1
   \<and> returned (scenario [Click sign_in_button] True) (IsVisible wordspark_heading)
       (issued (scenario [Click sign_in_button] True) Map.empty)
   \<and> answer (scenario [Click sign_in_button] True) wordspark_heading
       (issued (scenario [Click sign_in_button] True) Map.empty)
   \<and> raised (scenario [Click sign_in_button] True) (Click sign_in_button)
       (issued (scenario [Click sign_in_button] True) Map.empty)
   \<and> after (Click sign_in_button) (issued (scenario [Click sign_in_button] True) Map.empty)
       = [Close]
   \<and> outcome (scenario [Click sign_in_button] True) Map.empty
       = Inl (Raised (Click sign_in_button))"
proof -
  have all_return:
    "returned (scenario [] True) (IsVisible wordspark_heading)
       (issued (scenario [] True) Map.empty)
     \<and> answer (scenario [] True) wordspark_heading (issued (scenario [] True) Map.empty)
     \<and> following (IsVisible wordspark_heading) (issued (scenario [] True) Map.empty)
         = Some (Fill email_field email)
     \<and> following (Fill email_field email) (issued (scenario [] True) Map.empty)
         = Some (Fill password_field password)
     \<and> following (Fill password_field password) (issued (scenario [] True) Map.empty)
         = Some (Click sign_in_button)
     \<and> following (Click sign_in_button) (issued (scenario [] True) Map.empty)
         = Some (Screenshot after_login_png)
     \<and> count_list (issued (scenario [] True) Map.empty) (Click sign_in_button) = 1"
    using login_calls_in_order
      [of "issued (scenario [] True) Map.empty" "scenario [] True" Map.empty]
    by (simp add: evaluated run_all_return_login)
  have click_raises:
    "returned (scenario [Click sign_in_button] True) (IsVisible wordspark_heading)
       (issued (scenario [Click sign_in_button] True) Map.empty)
     \<and> answer (scenario [Click sign_in_button] True) wordspark_heading
         (issued (scenario [Click sign_in_button] True) Map.empty)
     \<and> raised (scenario [Click sign_in_button] True) (Click sign_in_button)
         (issued (scenario [Click sign_in_button] True) Map.empty)
     \<and> after (Click sign_in_button)
         (issued (scenario [Click sign_in_button] True) Map.empty) = [Close]
     \<and> outcome (scenario [Click sign_in_button] True) Map.empty
         = Inl (Raised (Click sign_in_button))"
    using login_calls_in_order
      [of "issued (scenario [Click sign_in_button] True) Map.empty"
          "scenario [Click sign_in_button] True" Map.empty]
    by (simp add: evaluated run_sign_in_click_raises)
  from all_return click_raises show ?thesis
    by blast
qed

text \<open>
  C3 as stated fails in a run where the heading is visible and the fill of ``Email''
  raises (a page that shows the heading and has no such field): the password is not
  filled, ``Sign In'' is not clicked and no screenshot is taken.
\<close>

theorem login_stops_when_email_fill_raises:
  "returned (scenario [Fill email_field email] True) (IsVisible wordspark_heading)
     (issued (scenario [Fill email_field email] True) Map.empty)
   \<and> answer (scenario [Fill email_field email] True) wordspark_heading
       (issued (scenario [Fill email_field email] True) Map.empty)
   \<and> raised (scenario [Fill email_field email] True) (Fill email_field email)
       (issued (scenario [Fill email_field email] True) Map.empty)
   \<and> Fill password_field password
       \<notin> set (issued (scenario [Fill email_field email] True) Map.empty)
   \<and> count_list (issued (scenario [Fill email_field email] True) Map.empty)
       (Click sign_in_button) = 0
   \<and> Screenshot after_login_png
       \<notin> set (issued (scenario [Fill email_field email] True) Map.empty)"
  by (simp add: evaluated run_email_fill_raises)

text \<open>
  C4. In every run in which the ``WordSpark'' heading is not visible when the script
  checks for it, the login branch is skipped as a whole: the run fills no field, does
  not click ``Sign In'' (its only click is on ``Play Story''), takes no
  login-confirmation screenshot and leaves that file as it was; the call right after
  the check is the wait for ``Vocabulary Lists''.
\<close>

theorem login_skipped_when_heading_hidden:
  assumes "t = issued w fs"
      and "returned w (IsVisible wordspark_heading) t"
      and "\<not> answer w wordspark_heading t"
  shows "following (IsVisible wordspark_heading) t =
           Some (ExpectVisible vocabulary_heading (Some 10000))
       \<and> (\<forall>l v. Fill l v \<notin> set t)
       \<and> Click sign_in_button \<notin> set t
       \<and> (\<forall>l. Click l \<in> set t \<longrightarrow> l = play_story_button)
       \<and> Screenshot after_login_png \<notin> set t
       \<and> disk w fs after_login_png = fs after_login_png"
proof -
  have "holds (\<lambda>(r, s).
          returned w (IsVisible wordspark_heading) (trace s) \<longrightarrow>
          \<not> answer w wordspark_heading (trace s) \<longrightarrow>
          following (IsVisible wordspark_heading) (trace s) =
            Some (ExpectVisible vocabulary_heading (Some 10000))
          \<and> (\<forall>l v. Fill l v \<notin> set (trace s))
          \<and> Click sign_in_button \<notin> set (trace s)
          \<and> (\<forall>l. Click l \<in> set (trace s) \<longrightarrow> l = play_story_button)
          \<and> Screenshot after_login_png \<notin> set (trace s)
          \<and> files s after_login_png = fs after_login_png)
        (run w (start fs))"
    by (simp add: script steps reading names_differ cong: if_cong
        del: count_list.simps(2) filter.simps(2))
  then show ?thesis
    using assms(2-) unfolding assms(1) observed by blast
qed

text \<open>A page past the login, every call returning.\<close>

theorem login_skipped_when_heading_hidden_witness:
  "returned (scenario [] False) (IsVisible wordspark_heading)
     (issued (scenario [] False) Map.empty)
   \<and> \<not> answer (scenario [] False) wordspark_heading (issued (scenario [] False) Map.empty)
   \<and> following (IsVisible wordspark_heading) (issued (scenario [] False) Map.empty) =
       Some (ExpectVisible vocabulary_heading (Some 10000))
   \<and> Click sign_in_button \<notin> set (issued (scenario [] False) Map.empty)
   \<and> Screenshot after_login_png \<notin> set (issued (scenario [] False) Map.empty)
   \<and> disk (scenario [] False) Map.empty after_login_png = None"
  using login_skipped_when_heading_hidden
    [of "issued (scenario [] False) Map.empty" "scenario [] False" Map.empty]
  by (simp add: evaluated run_all_return_no_login)

text \<open>
  C5, as amended. In every run in which the click on ``Play Story'' returns, the next
  call is the wait for \<^verbatim>\<open>get_by_role("heading", name="Story:")\<close>, made once and with
  no timeout argument, so with the library's default. The locator takes every heading
  whose accessible name begins with ``Story:''; it is not limited to those, since the
  library looks for the text anywhere in the name and ignores letter case.
\<close>

theorem story_wait_follows_click:
  assumes "t = issued w fs"
      and "returned w (Click play_story_button) t"
  shows "following (Click play_story_button) t = Some (ExpectVisible story_heading None)
       \<and> count_list t (ExpectVisible story_heading None) = 1
       \<and> (\<forall>tm. ExpectVisible story_heading tm \<in> set t \<longrightarrow> tm = None)
       \<and> story_heading = GetByRole Heading ''Story:''
       \<and> (\<forall>a. starts_with ''Story:'' a \<longrightarrow> by_role Heading ''Story:'' (Heading, a))"
proof -
  have "holds (\<lambda>(r, s).
          returned w (Click play_story_button) (trace s) \<longrightarrow>
          following (Click play_story_button) (trace s)
            = Some (ExpectVisible story_heading None)
          \<and> count_list (trace s) (ExpectVisible story_heading None) = 1
          \<and> (\<forall>tm. ExpectVisible story_heading tm \<in> set (trace s) \<longrightarrow> tm = None))
        (run w (start fs))"
    by (simp add: script steps reading names_differ cong: if_cong
        del: count_list.simps(2) filter.simps(2))
  moreover have "story_heading = GetByRole Heading ''Story:''"
    by (simp add: story_heading_def)
  moreover have "\<forall>a. starts_with ''Story:'' a \<longrightarrow> by_role Heading ''Story:'' (Heading, a)"
    by (simp add: by_role_def starts_with_matches)
  ultimately show ?thesis
    using assms(2-) unfolding assms(1) observed by blast
qed

text \<open>Every call returns, and a heading ``Story: The Fox'' is one the locator takes.\<close>

theorem story_wait_follows_click_witness:
  "returned (scenario [] False) (Click play_story_button)
     (issued (scenario [] False) Map.empty)
   \<and> following (Click play_story_button) (issued (scenario [] False) Map.empty)
       = Some (ExpectVisible story_heading None)
   \<and> count_list (issued (scenario [] False) Map.empty) (ExpectVisible story_heading None) = 1
   \<and> starts_with ''Story:'' ''Story: The Fox''
   \<and> by_role Heading ''Story:'' (Heading, ''Story: The Fox'')"
proof -
  have "starts_with ''Story:'' ''Story: The Fox''"
    by (simp add: starts_with_def)
  then show ?thesis
    using story_wait_follows_click
      [of "issued (scenario [] False) Map.empty" "scenario [] False" Map.empty]
    by (simp add: evaluated run_all_return_no_login)
qed

text \<open>
  C5 as stated fails for a heading named ``A Short Story: Dusk'': the locator takes
  it, and its name does not begin with ``Story:''.
\<close>

theorem story_locator_takes_more_than_the_prefix:
  "by_role Heading ''Story:'' (Heading, ''A Short Story: Dusk'')
   \<and> \<not> starts_with ''Story:'' ''A Short Story: Dusk''"
  by (simp add: by_role_def name_matches_def starts_with_def lower_def)

text \<open>
  C6, as amended. In every run in which the dashboard screenshot returns, the next
  call asserts that \<^verbatim>\<open>get_by_role("button", name="Play Story").first\<close> is visible,
  with no timeout argument, so with the library's default. If the assertion returns,
  the next call clicks that same locator, and the run makes that click exactly once.
  If the assertion raises, the run makes no such click: the only call after it is
  the close of the browser, and the run ends in the failure of the assertion, or of
  the close if the close raises too. No run clicks the locator twice, and nothing
  else is clicked after the dashboard screenshot. The locator resolves to the first,
  in document order, of the elements that \<^verbatim>\<open>get_by_role("button", name="Play Story")\<close>
  matches, and those are the buttons that the name test of the library takes: every
  button whose accessible name contains ``Play Story'', letter case ignored, is one.
  So on a page on which no button comes before such a button, the locator resolves to
  that button, and that button need not be named ``Play Story'': before a button of
  that name, a button ``Replay Story'' is the one the locator resolves to.
\<close>

theorem first_play_story_button_asserted_then_clicked:
  assumes "t = issued w fs"
      and "returned w (Screenshot dashboard_png) t"
  shows "following (Screenshot dashboard_png) t = Some (ExpectVisible play_story_button None)
       \<and> (\<forall>tm. ExpectVisible play_story_button tm \<in> set t \<longrightarrow> tm = None)
       \<and> (returned w (ExpectVisible play_story_button None) t \<longrightarrow>
             following (ExpectVisible play_story_button None) t = Some (Click play_story_button)
             \<and> count_list t (Click play_story_button) = 1)
       \<and> (raised w (ExpectVisible play_story_button None) t \<longrightarrow>
             count_list t (Click play_story_button) = 0
             \<and> after (ExpectVisible play_story_button None) t = [Close]
             \<and> outcome w fs =
                 Inl (Raised (if raised w Close t then Close
                              else ExpectVisible play_story_button None)))
       \<and> count_list t (Click play_story_button) \<le> 1
       \<and> (\<forall>l. Click l \<in> set (after (Screenshot dashboard_png) t) \<longrightarrow> l = play_story_button)
       \<and> play_story_button = First (GetByRole Button ''Play Story'')
       \<and> (\<forall>page. matching play_story_button page =
             map_option (take 1) (matching (GetByRole Button ''Play Story'') page))
       \<and> (\<forall>page. matching (GetByRole Button ''Play Story'') page =
             Some (filter (by_role Button ''Play Story'') page))
       \<and> (\<forall>a. contains (map lower ''Play Story'') (map lower a) \<longrightarrow>
             by_role Button ''Play Story'' (Button, a))
       \<and> (\<forall>before_it e after_it.
             by_role Button ''Play Story'' e \<and> (\<forall>x \<in> set before_it. fst x \<noteq> Button) \<longrightarrow>
             matching play_story_button (before_it @ e # after_it) = Some [e])
       \<and> matching play_story_button [(Button, ''Replay Story''), (Button, ''Play Story'')]
           = Some [(Button, ''Replay Story'')]"
proof -
  have "holds (\<lambda>(r, s).
          returned w (Screenshot dashboard_png) (trace s) \<longrightarrow>
          following (Screenshot dashboard_png) (trace s)
            = Some (ExpectVisible play_story_button None)
          \<and> (\<forall>tm. ExpectVisible play_story_button tm \<in> set (trace s) \<longrightarrow> tm = None)
          \<and> (returned w (ExpectVisible play_story_button None) (trace s) \<longrightarrow>
                following (ExpectVisible play_story_button None) (trace s)
                  = Some (Click play_story_button)
                \<and> count_list (trace s) (Click play_story_button) = 1)
          \<and> (raised w (ExpectVisible play_story_button None) (trace s) \<longrightarrow>
                count_list (trace s) (Click play_story_button) = 0
                \<and> after (ExpectVisible play_story_button None) (trace s) = [Close]
                \<and> r = Inl (Raised (if raised w Close (trace s) then Close
                                    else ExpectVisible play_story_button None)))
          \<and> count_list (trace s) (Click play_story_button) \<le> 1
          \<and> (\<forall>l. Click l \<in> set (after (Screenshot dashboard_png) (trace s)) \<longrightarrow>
                l = play_story_button))
        (run w (start fs))"
    by (simp add: script steps reading names_differ cong: if_cong
        del: count_list.simps(2) filter.simps(2))
  moreover have "play_story_button = First (GetByRole Button ''Play Story'')"
    by (simp add: play_story_button_def)
  moreover have "\<forall>page. matching play_story_button page =
      map_option (take 1) (matching (GetByRole Button ''Play Story'') page)"
    by (simp add: play_story_button_def)
  moreover have "\<forall>page. matching (GetByRole Button ''Play Story'') page =
      Some (filter (by_role Button ''Play Story'') page)"
    by simp
  moreover have "\<forall>a. contains (map lower ''Play Story'') (map lower a) \<longrightarrow>
      by_role Button ''Play Story'' (Button, a)"
    by (simp add: by_role_def name_matches_def)
  moreover have "matching play_story_button [(Button, ''Replay Story''), (Button, ''Play Story'')]
      = Some [(Button, ''Replay Story'')]"
    by (simp add: play_story_button_def by_role_def name_matches_def starts_with_def lower_def)
  moreover have "\<forall>before_it e after_it.
      by_role Button ''Play Story'' e \<and> (\<forall>x \<in> set before_it. fst x \<noteq> Button) \<longrightarrow>
      matching play_story_button (before_it @ e # after_it) = Some [e]"
  proof (intro allI impI)
    fix before_it :: "(role \<times> string) list" and e after_it
    assume h: "by_role Button ''Play Story'' e \<and> (\<forall>x \<in> set before_it. fst x \<noteq> Button)"
    then have "filter (by_role Button ''Play Story'') before_it = []"
      by (simp add: filter_empty_conv by_role_def)
    with h show "matching play_story_button (before_it @ e # after_it) = Some [e]"
      by (simp add: play_story_button_def)
  qed
  ultimately show ?thesis
    using assms(2-) unfolding assms(1) observed by blast
qed

text \<open>
  The login page with every call returning; a page past the login on which the
  assertion raises; a page with a heading, then two ``Play Story'' buttons.
\<close>

theorem first_play_story_button_asserted_then_clicked_witness:
  "returned (scenario [] True) (Screenshot dashboard_png) (issued (scenario [] True) Map.empty)
   \<and> returned (scenario [] True) (ExpectVisible play_story_button None)
       (issued (scenario [] True) Map.empty)
   \<and> following (Screenshot dashboard_png) (issued (scenario [] True) Map.empty)
       = Some (ExpectVisible play_story_button None)
   \<and> following (ExpectVisible play_story_button None) (issued (scenario [] True) Map.empty)
       = Some (Click play_story_button)
   \<and> count_list (issued (scenario [] True) Map.empty) (Click play_story_button) = 1
   \<and> returned (scenario [ExpectVisible play_story_button None] False)
       (Screenshot dashboard_png)
       (issued (scenario [ExpectVisible play_story_button None] False) Map.empty)
   \<and> raised (scenario [ExpectVisible play_story_button None] False)
       (ExpectVisible play_story_button None)
       (issued (scenario [ExpectVisible play_story_button None] False) Map.empty)
   \<and> after (ExpectVisible play_story_button None)
       (issued (scenario [ExpectVisible play_story_button None] False) Map.empty) = [Close]
   \<and> outcome (scenario [ExpectVisible play_story_button None] False) Map.empty
       = Inl (Raised (ExpectVisible play_story_button None))
   \<and> by_role Button ''Play Story'' (Button, ''Play Story'')
   \<and> matching play_story_button
       ([(Heading, ''Vocabulary Lists'')] @ (Button, ''Play Story'') # [(Button, ''Play Story'')])
       = Some [(Button, ''Play Story'')]"
proof -
  have all_return:
    "returned (scenario [] True) (Screenshot dashboard_png)
       (issued (scenario [] True) Map.empty)
     \<and> returned (scenario [] True) (ExpectVisible play_story_button None)
         (issued (scenario [] True) Map.empty)
     \<and> following (Screenshot dashboard_png) (issued (scenario [] True) Map.empty)
         = Some (ExpectVisible play_story_button None)
     \<and> following (ExpectVisible play_story_button None) (issued (scenario [] True) Map.empty)
         = Some (Click play_story_button)
     \<and> count_list (issued (scenario [] True) Map.empty) (Click play_story_button) = 1"
    using first_play_story_button_asserted_then_clicked
      [of "issued (scenario [] True) Map.empty" "scenario [] True" Map.empty]
    by (simp add: evaluated run_all_return_login)
  have assertion_raises:
    "returned (scenario [ExpectVisible play_story_button None] False)
       (Screenshot dashboard_png)
       (issued (scenario [ExpectVisible play_story_button None] False) Map.empty)
     \<and> raised (scenario [ExpectVisible play_story_button None] False)
         (ExpectVisible play_story_button None)
         (issued (scenario [ExpectVisible play_story_button None] False) Map.empty)
     \<and> after (ExpectVisible play_story_button None)
         (issued (scenario [ExpectVisible play_story_button None] False) Map.empty) = [Close]
     \<and> outcome (scenario [ExpectVisible play_story_button None] False) Map.empty
         = Inl (Raised (ExpectVisible play_story_button None))"
    using first_play_story_button_asserted_then_clicked
      [of "issued (scenario [ExpectVisible play_story_button None] False) Map.empty"
          "scenario [ExpectVisible play_story_button None] False" Map.empty]
    by (simp add: evaluated run_play_story_assertion_raises)
  have taken: "by_role Button ''Play Story'' (Button, ''Play Story'')"
    by (simp add: by_role_def name_matches_def starts_with_def lower_def)
  have no_button_before: "\<forall>x \<in> set [(Heading, ''Vocabulary Lists'')]. fst x \<noteq> Button"
    by simp
  have first_one:
    "matching play_story_button
       ([(Heading, ''Vocabulary Lists'')] @ (Button, ''Play Story'') # [(Button, ''Play Story'')])
     = Some [(Button, ''Play Story'')]"
    using first_play_story_button_asserted_then_clicked
        [of "issued (scenario [] True) Map.empty" "scenario [] True" Map.empty]
      all_return taken no_button_before
    by blast
  from all_return assertion_raises taken first_one show ?thesis
    by blast
qed

text \<open>
  C6 as stated fails twice. In a run in which the assertion raises after the
  dashboard screenshot, the button is not clicked. And on a page whose first button
  is named ``Replay Story'', the locator resolves to that button, not to the button
  named ``Play Story'' after it.
\<close>

theorem play_story_not_clicked_or_not_the_named_button:
  "returned (scenario [ExpectVisible play_story_button None] False) (Screenshot dashboard_png)
     (issued (scenario [ExpectVisible play_story_button None] False) Map.empty)
   \<and> count_list (issued (scenario [ExpectVisible play_story_button None] False) Map.empty)
       (Click play_story_button) = 0
   \<and> matching play_story_button [(Button, ''Replay Story''), (Button, ''Play Story'')]
       = Some [(Button, ''Replay Story'')]"
proof -
  have no_click:
    "returned (scenario [ExpectVisible play_story_button None] False) (Screenshot dashboard_png)
       (issued (scenario [ExpectVisible play_story_button None] False) Map.empty)
     \<and> count_list (issued (scenario [ExpectVisible play_story_button None] False) Map.empty)
         (Click play_story_button) = 0"
    by (simp add: evaluated run_play_story_assertion_raises)
  have other_button:
    "matching play_story_button [(Button, ''Replay Story''), (Button, ''Play Story'')]
     = Some [(Button, ''Replay Story'')]"
    by (simp add: play_story_button_def by_role_def name_matches_def starts_with_def lower_def)
  from no_click other_button show ?thesis
    by blast
qed

text \<open>
  C8. In every run that ends without an error and in which the login branch is
  taken, the screenshot calls are exactly three, in this order: \<^verbatim>\<open>after_login.png\<close>,
  \<^verbatim>\<open>dashboard.png\<close>, \<^verbatim>\<open>story_page.png\<close>, each under
  \<^verbatim>\<open>jules-scratch/verification/\<close>. The disk after the run is the disk before it with
  the three pictures stored under these paths, whatever was there, and every other
  path as it was.
\<close>

theorem three_screenshots_when_login_run_completes:
  assumes "t = issued w fs"
      and "outcome w fs = Inr ()"
      and "answer w wordspark_heading t"
  shows "filter is_screenshot t =
           [Screenshot after_login_png, Screenshot dashboard_png, Screenshot story_page_png]
       \<and> disk w fs =
           fs(after_login_png \<mapsto> capture w (before (Screenshot after_login_png) t),
              dashboard_png \<mapsto> capture w (before (Screenshot dashboard_png) t),
              story_page_png \<mapsto> capture w (before (Screenshot story_page_png) t))
       \<and> (\<forall>p. p \<noteq> after_login_png \<and> p \<noteq> dashboard_png \<and> p \<noteq> story_page_png \<longrightarrow>
             disk w fs p = fs p)
       \<and> after_login_png = ''jules-scratch/verification/after_login.png''
       \<and> dashboard_png = ''jules-scratch/verification/dashboard.png''
       \<and> story_page_png = ''jules-scratch/verification/story_page.png''"
proof -
  have "holds (\<lambda>(r, s).
          r = Inr () \<longrightarrow>
          answer w wordspark_heading (trace s) \<longrightarrow>
          filter is_screenshot (trace s) =
            [Screenshot after_login_png, Screenshot dashboard_png, Screenshot story_page_png]
          \<and> files s =
              fs(after_login_png \<mapsto> capture w (before (Screenshot after_login_png) (trace s)),
                 dashboard_png \<mapsto> capture w (before (Screenshot dashboard_png) (trace s)),
                 story_page_png \<mapsto> capture w (before (Screenshot story_page_png) (trace s)))
          \<and> (\<forall>p. p \<noteq> after_login_png \<and> p \<noteq> dashboard_png \<and> p \<noteq> story_page_png \<longrightarrow>
                files s p = fs p))
        (run w (start fs))"
    by (simp add: script steps reading names_differ cong: if_cong
        del: count_list.simps(2) filter.simps(2))
  moreover have "after_login_png = ''jules-scratch/verification/after_login.png''
      \<and> dashboard_png = ''jules-scratch/verification/dashboard.png''
      \<and> story_page_png = ''jules-scratch/verification/story_page.png''"
    by (simp add: after_login_png_def dashboard_png_def story_page_png_def)
  ultimately show ?thesis
    using assms(2-) unfolding assms(1) observed by blast
qed

text \<open>
  A complete run with login on a disk that already holds a dashboard picture and a
  file of another name: the picture is replaced, the other file is kept.
\<close>

theorem three_screenshots_when_login_run_completes_witness:
  "outcome (scenario [] True) [dashboard_png \<mapsto> ''old'', ''notes.txt'' \<mapsto> ''kept''] = Inr ()
   \<and> answer (scenario [] True) wordspark_heading
       (issued (scenario [] True) [dashboard_png \<mapsto> ''old'', ''notes.txt'' \<mapsto> ''kept''])
   \<and> filter is_screenshot
       (issued (scenario [] True) [dashboard_png \<mapsto> ''old'', ''notes.txt'' \<mapsto> ''kept''])
       = [Screenshot after_login_png, Screenshot dashboard_png, Screenshot story_page_png]
   \<and> disk (scenario [] True) [dashboard_png \<mapsto> ''old'', ''notes.txt'' \<mapsto> ''kept'']
       after_login_png = Some ''png''
   \<and> disk (scenario [] True) [dashboard_png \<mapsto> ''old'', ''notes.txt'' \<mapsto> ''kept'']
       dashboard_png = Some ''png''
   \<and> disk (scenario [] True) [dashboard_png \<mapsto> ''old'', ''notes.txt'' \<mapsto> ''kept'']
       story_page_png = Some ''png''
   \<and> disk (scenario [] True) [dashboard_png \<mapsto> ''old'', ''notes.txt'' \<mapsto> ''kept'']
       ''notes.txt'' = Some ''kept''"
  using three_screenshots_when_login_run_completes
    [of "issued (scenario [] True) [dashboard_png \<mapsto> ''old'', ''notes.txt'' \<mapsto> ''kept'']"
        "scenario [] True" "[dashboard_png \<mapsto> ''old'', ''notes.txt'' \<mapsto> ''kept'']"]
  by (simp add: evaluated run_all_return_login after_login_png_def dashboard_png_def
      story_page_png_def)

text \<open>
  C9. In every run, each screenshot comes only after the step it records: the
  dashboard screenshot is in the run only if the wait for ``Vocabulary Lists'' was
  made before it and returned, the story-page screenshot only if the wait for the
  ``Story:'' heading was made before it and returned, the login screenshot only if
  the click on ``Sign In'' was made before it and returned. After a call that raises
  the run takes no screenshot: the only call that can follow is the close. The disk
  after the run is the disk before it with the pictures of exactly the screenshot
  calls that returned.
\<close>

theorem screenshots_only_after_their_step:
  assumes "t = issued w fs"
  shows "(Screenshot dashboard_png \<in> set t \<longrightarrow>
            ExpectVisible vocabulary_heading (Some 10000)
              \<in> set (before (Screenshot dashboard_png) t)
            \<and> returned w (ExpectVisible vocabulary_heading (Some 10000)) t)
       \<and> (Screenshot story_page_png \<in> set t \<longrightarrow>
            ExpectVisible story_heading None \<in> set (before (Screenshot story_page_png) t)
            \<and> returned w (ExpectVisible story_heading None) t)
       \<and> (Screenshot after_login_png \<in> set t \<longrightarrow>
            Click sign_in_button \<in> set (before (Screenshot after_login_png) t)
            \<and> returned w (Click sign_in_button) t)
       \<and> (\<forall>c \<in> set t. raised w c t \<longrightarrow>
            (\<forall>p. Screenshot p \<notin> set (after c t)) \<and> (\<forall>x \<in> set (after c t). x = Close))
       \<and> disk w fs =
            stored w story_page_png t (stored w dashboard_png t (stored w after_login_png t fs))"
proof -
  have "holds (\<lambda>(r, s).
          (Screenshot dashboard_png \<in> set (trace s) \<longrightarrow>
             ExpectVisible vocabulary_heading (Some 10000)
               \<in> set (before (Screenshot dashboard_png) (trace s))
             \<and> returned w (ExpectVisible vocabulary_heading (Some 10000)) (trace s))
          \<and> (Screenshot story_page_png \<in> set (trace s) \<longrightarrow>
             ExpectVisible story_heading None
               \<in> set (before (Screenshot story_page_png) (trace s))
             \<and> returned w (ExpectVisible story_heading None) (trace s))
          \<and> (Screenshot after_login_png \<in> set (trace s) \<longrightarrow>
             Click sign_in_button \<in> set (before (Screenshot after_login_png) (trace s))
             \<and> returned w (Click sign_in_button) (trace s))
          \<and> (\<forall>c \<in> set (trace s). raised w c (trace s) \<longrightarrow>
             (\<forall>p. Screenshot p \<notin> set (after c (trace s)))
             \<and> (\<forall>x \<in> set (after c (trace s)). x = Close))
          \<and> files s =
               stored w story_page_png (trace s)
                 (stored w dashboard_png (trace s) (stored w after_login_png (trace s) fs)))
        (run w (start fs))"
    by (simp add: script steps reading names_differ cong: if_cong
        del: count_list.simps(2) filter.simps(2))
  then show ?thesis
    unfolding assms(1) observed by blast
qed

text \<open>
  A run in which the wait for the ``Story:'' heading raises: the dashboard picture
  is on disk, the story-page picture is not.
\<close>

theorem screenshots_only_after_their_step_witness:
  "Screenshot dashboard_png
     \<in> set (issued (scenario [ExpectVisible story_heading None] True) Map.empty)
   \<and> returned (scenario [ExpectVisible story_heading None] True)
       (ExpectVisible vocabulary_heading (Some 10000))
       (issued (scenario [ExpectVisible story_heading None] True) Map.empty)
   \<and> raised (scenario [ExpectVisible story_heading None] True)
       (ExpectVisible story_heading None)
       (issued (scenario [ExpectVisible story_heading None] True) Map.empty)
   \<and> after (ExpectVisible story_heading None)
       (issued (scenario [ExpectVisible story_heading None] True) Map.empty) = [Close]
   \<and> Screenshot story_page_png
       \<notin> set (issued (scenario [ExpectVisible story_heading None] True) Map.empty)
   \<and> disk (scenario [ExpectVisible story_heading None] True) Map.empty dashboard_png
       = Some ''png''
   \<and> disk (scenario [ExpectVisible story_heading None] True) Map.empty story_page_png
       = None"
  using screenshots_only_after_their_step
    [of "issued (scenario [ExpectVisible story_heading None] True) Map.empty"
        "scenario [ExpectVisible story_heading None] True" Map.empty]
  by (simp add: evaluated run_story_wait_raises)

text \<open>
  C10, as amended. Every run calls the launch exactly once, headless, and never
  asks for more than one context, one page or one navigation; the only address it
  navigates to is \<^verbatim>\<open>http://localhost:8080/\<close>. A run in which the launch returns asks
  for exactly one context; if that returns, for exactly one page; if that returns,
  it navigates exactly once and closes the browser exactly once. After the
  navigation no call opens anything, so what the page shows changes only through
  the clicks; no call is made after the close, and no call is made twice.
\<close>

theorem one_browser_one_context_one_page_one_navigation:
  assumes "t = issued w fs"
  shows "count_list t (Launch True) = 1
       \<and> (\<forall>h. Launch h \<in> set t \<longrightarrow> h = True)
       \<and> count_list t NewContext \<le> 1
       \<and> count_list t NewPage \<le> 1
       \<and> count_list t (Goto url) \<le> 1
       \<and> (\<forall>u. Goto u \<in> set t \<longrightarrow> u = url)
       \<and> (returned w (Launch True) t \<longrightarrow> count_list t NewContext = 1)
       \<and> (returned w NewContext t \<longrightarrow> count_list t NewPage = 1)
       \<and> (returned w NewPage t \<longrightarrow> count_list t (Goto url) = 1 \<and> count_list t Close = 1)
       \<and> (\<forall>c \<in> set (after (Goto url) t). \<not> opens c)
       \<and> after Close t = []
       \<and> distinct t
       \<and> url = ''http://localhost:8080/''"
proof -
  have "holds (\<lambda>(r, s).
          count_list (trace s) (Launch True) = 1
          \<and> (\<forall>h. Launch h \<in> set (trace s) \<longrightarrow> h = True)
          \<and> count_list (trace s) NewContext \<le> 1
          \<and> count_list (trace s) NewPage \<le> 1
          \<and> count_list (trace s) (Goto url) \<le> 1
          \<and> (\<forall>u. Goto u \<in> set (trace s) \<longrightarrow> u = url)
          \<and> (returned w (Launch True) (trace s) \<longrightarrow> count_list (trace s) NewContext = 1)
          \<and> (returned w NewContext (trace s) \<longrightarrow> count_list (trace s) NewPage = 1)
          \<and> (returned w NewPage (trace s) \<longrightarrow>
                count_list (trace s) (Goto url) = 1 \<and> count_list (trace s) Close = 1)
          \<and> (\<forall>c \<in> set (after (Goto url) (trace s)). \<not> opens c)
          \<and> after Close (trace s) = []
          \<and> distinct (trace s))
        (run w (start fs))"
    by (simp add: script steps reading names_differ cong: if_cong
        del: count_list.simps(2) filter.simps(2))
  moreover have "url = ''http://localhost:8080/''"
    by (simp add: url_def)
  ultimately show ?thesis
    unfolding assms(1) observed by blast
qed

text \<open>The login page with every call returning: one of each.\<close>

theorem one_browser_one_context_one_page_one_navigation_witness:
  "returned (scenario [] True) (Launch True) (issued (scenario [] True) Map.empty)
   \<and> returned (scenario [] True) NewContext (issued (scenario [] True) Map.empty)
   \<and> returned (scenario [] True) NewPage (issued (scenario [] True) Map.empty)
   \<and> count_list (issued (scenario [] True) Map.empty) (Launch True) = 1
   \<and> count_list (issued (scenario [] True) Map.empty) NewContext = 1
   \<and> count_list (issued (scenario [] True) Map.empty) NewPage = 1
   \<and> count_list (issued (scenario [] True) Map.empty) (Goto url) = 1
   \<and> count_list (issued (scenario [] True) Map.empty) Close = 1
   \<and> after Close (issued (scenario [] True) Map.empty) = []"
  using one_browser_one_context_one_page_one_navigation
    [of "issued (scenario [] True) Map.empty" "scenario [] True" Map.empty]
  by (simp add: evaluated run_all_return_login)

text \<open>
  C10 as stated fails where the launch raises: the run creates no context and no
  page and does not navigate.
\<close>

theorem nothing_created_when_launch_raises:
  "raised (scenario [Launch True] True) (Launch True)
     (issued (scenario [Launch True] True) Map.empty)
   \<and> count_list (issued (scenario [Launch True] True) Map.empty) NewContext = 0
   \<and> count_list (issued (scenario [Launch True] True) Map.empty) NewPage = 0
   \<and> count_list (issued (scenario [Launch True] True) Map.empty) (Goto url) = 0"
  by (simp add: evaluated script steps)

end
